theory Spec2Isabelle
  imports Main
begin

section \<open>Stacks address utilities (src/address.ts)\<close>

text \<open>
  A shallow embedding of the address helpers of the library. JavaScript strings are
  modelled as \<open>string\<close> (lists of 8-bit characters standing for the code units U+0000
  to U+00FF, which hold the ASCII alphabet of addresses; strings with wider code units
  are outside the model), JavaScript numbers that hold versions and character counts as
  \<open>int\<close>, a thrown exception as the left summand of a sum type, and \<open>null\<close> as
  \<open>None\<close>.

  The two functions \<open>c32addressDecode\<close> and \<open>c32address\<close> are imported from the
  package c32check, which is not part of this library. They are taken as parameters
  of the functions that call them, so every statement below holds for whatever these
  two functions compute.
\<close>

subsection \<open>Data model\<close>

datatype NetworkType = mainnet | testnet

datatype AddressType = single_sig | multi_sig

record AddressInfo =
  address :: string
  network :: NetworkType
  type :: AddressType
  version :: int
  hash160 :: string
  isValid :: bool

text \<open>An exception object, with its message.\<close>

datatype js_error = Error string

text \<open>
  A value passed where a string is expected: TypeScript declares the argument of the
  validation function a string, the function still tests \<open>typeof\<close> at run time.
\<close>

datatype js_value = JString string | JNotString

type_synonym c32decoder = "string \<Rightarrow> js_error + (int \<times> string)"

type_synonym c32encoder = "int \<Rightarrow> string \<Rightarrow> js_error + string"

subsection \<open>The version table\<close>

definition MAINNET_SINGLE_SIG :: int where
  "MAINNET_SINGLE_SIG = 22"

definition MAINNET_MULTI_SIG :: int where
  "MAINNET_MULTI_SIG = 20"

definition TESTNET_SINGLE_SIG :: int where
  "TESTNET_SINGLE_SIG = 26"

definition TESTNET_MULTI_SIG :: int where
  "TESTNET_MULTI_SIG = 21"

subsection \<open>String primitives of the language\<close>

text \<open>\<open>String.prototype.startsWith\<close> with one argument.\<close>

definition startsWith :: "string \<Rightarrow> string \<Rightarrow> bool" where
  "startsWith s p = (take (length p) s = p)"

text \<open>
  \<open>String.prototype.slice(start, end)\<close> on integral arguments: a negative index
  counts from the end, both are clamped to the string, and an empty range gives the
  empty string.
\<close>

definition js_slice :: "string \<Rightarrow> int \<Rightarrow> int \<Rightarrow> string" where
  "js_slice s start end =
     (let len = int (length s);
          from = (if start < 0 then max (len + start) 0 else min start len);
          to = (if end < 0 then max (len + end) 0 else min end len)
      in if from < to then take (nat (to - from)) (drop (nat from) s) else [])"

text \<open>\<open>slice(start)\<close>: the end defaults to the length of the string.\<close>

definition js_slice_from :: "string \<Rightarrow> int \<Rightarrow> string" where
  "js_slice_from s start = js_slice s start (int (length s))"

text \<open>
  \<open>String.prototype.toUpperCase\<close>. It maps each character by the Unicode upper-case
  mapping, with no dependence on locale or context, and its result may hold code units
  beyond U+00FF and may be longer than the input, so the result is a list of code unit
  values. On the code units U+0000 to U+00FF that a \<open>char\<close> stands for:
  a to z (97 to 122) move 32 down to A to Z; the micro sign (181) becomes the Greek
  capital mu (924); the sharp s (223) becomes the two letters SS (83, 83); the small
  letters 224 to 254, the division sign 247 left out, move 32 down to their capitals;
  the y with diaeresis (255) becomes its capital (376); every other code unit stays.
\<close>

definition upper_unit :: "nat \<Rightarrow> nat" where
  "upper_unit n =
     (if 97 \<le> n \<and> n \<le> 122 then n - 32
      else if n = 181 then 924
      else if 224 \<le> n \<and> n \<le> 254 \<and> n \<noteq> 247 then n - 32
      else if n = 255 then 376
      else n)"

definition upper_units :: "char \<Rightarrow> nat list" where
  "upper_units c =
     (if (of_char c :: nat) = 223 then [83, 83] else [upper_unit (of_char c)])"

definition toUpperCase :: "string \<Rightarrow> nat list" where
  "toUpperCase s = concat (map upper_units s)"

text \<open>A string of the ASCII alphabet: every code unit is below 128.\<close>

definition is_ascii :: "string \<Rightarrow> bool" where
  "is_ascii s = list_all (\<lambda>c. of_char c < (128::nat)) s"

subsection \<open>Validation\<close>

text \<open>The body of the \<open>try\<close> block of \<open>isValidStacksAddress\<close>.\<close>

definition isValidStacksAddress_try :: "c32decoder \<Rightarrow> js_value \<Rightarrow> js_error + bool" where
  "isValidStacksAddress_try c32addressDecode a =
     (case a of
        JNotString \<Rightarrow> Inr False
      | JString s \<Rightarrow>
          if s = [] then Inr False
          else if \<not> startsWith s ''SP'' \<and> \<not> startsWith s ''ST'' \<and>
                  \<not> startsWith s ''SM'' \<and> \<not> startsWith s ''SN'' then Inr False
          else (case c32addressDecode s of
                  Inl e \<Rightarrow> Inl e
                | Inr _ \<Rightarrow> Inr True))"

text \<open>The function: the \<open>catch\<close> clause turns every exception into \<open>false\<close>.\<close>

definition isValidStacksAddress :: "c32decoder \<Rightarrow> js_value \<Rightarrow> js_error + bool" where
  "isValidStacksAddress c32addressDecode a =
     (case isValidStacksAddress_try c32addressDecode a of
        Inl _ \<Rightarrow> Inr False
      | Inr b \<Rightarrow> Inr b)"

subsection \<open>Network from the prefix\<close>

definition isMainnetAddress :: "string \<Rightarrow> bool" where
  "isMainnetAddress a = (startsWith a ''SP'' \<or> startsWith a ''SM'')"

definition isTestnetAddress :: "string \<Rightarrow> bool" where
  "isTestnetAddress a = (startsWith a ''ST'' \<or> startsWith a ''SN'')"

definition getNetworkFromAddress :: "string \<Rightarrow> NetworkType option" where
  "getNetworkFromAddress a =
     (if isMainnetAddress a then Some mainnet
      else if isTestnetAddress a then Some testnet
      else None)"

subsection \<open>Parsing\<close>

text \<open>
  The \<open>switch\<close> on the decoded version in \<open>parseStacksAddress\<close>; \<open>None\<close> is its
  \<open>default\<close> branch.
\<close>

definition classify_version :: "int \<Rightarrow> (NetworkType \<times> AddressType) option" where
  "classify_version v =
     (if v = MAINNET_SINGLE_SIG then Some (mainnet, single_sig)
      else if v = MAINNET_MULTI_SIG then Some (mainnet, multi_sig)
      else if v = TESTNET_SINGLE_SIG then Some (testnet, single_sig)
      else if v = TESTNET_MULTI_SIG then Some (testnet, multi_sig)
      else None)"

text \<open>The body of the \<open>try\<close> block of \<open>parseStacksAddress\<close>.\<close>

definition parseStacksAddress_try :: "c32decoder \<Rightarrow> string \<Rightarrow> js_error + AddressInfo option" where
  "parseStacksAddress_try c32addressDecode a =
     (case c32addressDecode a of
        Inl e \<Rightarrow> Inl e
      | Inr (v, h) \<Rightarrow>
          (case classify_version v of
             None \<Rightarrow> Inr None
           | Some (n, t) \<Rightarrow>
               Inr (Some \<lparr>address = a, network = n, type = t, version = v,
                          hash160 = h, isValid = True\<rparr>)))"

definition parseStacksAddress :: "c32decoder \<Rightarrow> string \<Rightarrow> js_error + AddressInfo option" where
  "parseStacksAddress c32addressDecode a =
     (case parseStacksAddress_try c32addressDecode a of
        Inl _ \<Rightarrow> Inr None
      | Inr r \<Rightarrow> Inr r)"

subsection \<open>Display and comparison\<close>

definition shortenAddress :: "string \<Rightarrow> int \<Rightarrow> int \<Rightarrow> string" where
  "shortenAddress a startChars endChars =
     (if a = [] \<or> int (length a) \<le> startChars + endChars + 3 then a
      else js_slice a 0 startChars @ ''...'' @ js_slice_from a (- endChars))"

text \<open>The call with both optional arguments left out.\<close>

definition shortenAddress_default :: "string \<Rightarrow> string" where
  "shortenAddress_default a = shortenAddress a 5 4"

definition addressesEqual :: "string \<Rightarrow> string \<Rightarrow> bool" where
  "addressesEqual address1 address2 =
     (if address1 = [] \<or> address2 = [] then False
      else toUpperCase address1 = toUpperCase address2)"

subsection \<open>Encoding a hash\<close>

definition version_of :: "NetworkType \<Rightarrow> AddressType \<Rightarrow> int" where
  "version_of n t =
     (if n = mainnet
      then (if t = single_sig then MAINNET_SINGLE_SIG else MAINNET_MULTI_SIG)
      else (if t = single_sig then TESTNET_SINGLE_SIG else TESTNET_MULTI_SIG))"

definition hash160ToAddress :: "c32encoder \<Rightarrow> string \<Rightarrow> NetworkType \<Rightarrow> AddressType \<Rightarrow> js_error + string" where
  "hash160ToAddress c32address h n t = c32address (version_of n t) h"

subsection \<open>The operations in the words of the specification\<close>

text \<open>
  Shorten, as the specification words it: the input unchanged when it is no longer than
  \<open>startChars + endChars + 3\<close>, else its first \<open>startChars\<close> characters, three
  dots, and its last \<open>endChars\<close> characters.
\<close>

definition shorten_spec :: "string \<Rightarrow> nat \<Rightarrow> nat \<Rightarrow> string" where
  "shorten_spec a startChars endChars =
     (if length a \<le> startChars + endChars + 3 then a
      else take startChars a @ ''...'' @ drop (length a - endChars) a)"

text \<open>
  The code point of a lower-case letter with a capital of its own among the code units
  U+0000 to U+00FF: a to z, and the small letters 224 to 254 without the division sign
  247. The capital is 32 code points below.
\<close>

definition lower_code :: "nat \<Rightarrow> bool" where
  "lower_code n = ((97 \<le> n \<and> n \<le> 122) \<or> (224 \<le> n \<and> n \<le> 254 \<and> n \<noteq> 247))"

definition is_lower_letter :: "char \<Rightarrow> bool" where
  "is_lower_letter c = lower_code (of_char c)"

text \<open>
  Two characters are the same letter up to case when they are equal or one is a
  lower-case letter and the other its capital.
\<close>

definition same_letter :: "char \<Rightarrow> char \<Rightarrow> bool" where
  "same_letter c d =
     (c = d \<or> (is_lower_letter c \<and> (of_char d :: nat) + 32 = of_char c)
            \<or> (is_lower_letter d \<and> (of_char c :: nat) + 32 = of_char d))"

text \<open>Equality ignoring letter case: the same length, and the same letter at each place.\<close>

definition equal_ignoring_case :: "string \<Rightarrow> string \<Rightarrow> bool" where
  "equal_ignoring_case a b = list_all2 same_letter a b"

subsection \<open>Sample inputs\<close>

definition sample_address :: string where
  "sample_address = ''SP2J6ZY48GV1EZ5V2V5RB9MP66SW86PYKKNRV9EJ7''"

text \<open>
  A decoder that accepts the sample address alone and throws on every other string. It
  instantiates the decoder parameter where a statement is shown to apply to some input.
\<close>

definition sample_decoder :: c32decoder where
  "sample_decoder s =
     (if s = sample_address then Inr (22, ''a46ff88886c2ef9762d970b4d2c63678835bd39d'')
      else Inl (Error ''Invalid c32 address''))"

section \<open>Properties\<close>

subsection \<open>The version table and the classification of a version\<close>

lemmas version_defs =
  MAINNET_SINGLE_SIG_def MAINNET_MULTI_SIG_def TESTNET_SINGLE_SIG_def TESTNET_MULTI_SIG_def

lemma classify_version_cases:
  "classify_version v =
     (if v = 22 then Some (mainnet, single_sig)
      else if v = 20 then Some (mainnet, multi_sig)
      else if v = 26 then Some (testnet, single_sig)
      else if v = 21 then Some (testnet, multi_sig)
      else None)"
  by (simp add: classify_version_def version_defs)

lemma classify_version_Some:
  "classify_version v = Some (n, t) \<Longrightarrow>
     (v = 22 \<and> n = mainnet \<and> t = single_sig) \<or> (v = 20 \<and> n = mainnet \<and> t = multi_sig) \<or>
     (v = 26 \<and> n = testnet \<and> t = single_sig) \<or> (v = 21 \<and> n = testnet \<and> t = multi_sig)"
  by (auto simp: classify_version_cases split: if_splits)

lemma classify_version_of: "classify_version (version_of n t) = Some (n, t)"
  by (cases n; cases t) (simp_all add: version_of_def classify_version_def version_defs)

lemma parse_decoded:
  "dec a = Inr (v, h) \<Longrightarrow>
   parseStacksAddress dec a =
     Inr (case classify_version v of
            None \<Rightarrow> None
          | Some (n, t) \<Rightarrow> Some \<lparr>address = a, network = n, type = t, version = v,
                                hash160 = h, isValid = True\<rparr>)"
  by (simp add: parseStacksAddress_def parseStacksAddress_try_def split: option.splits)

lemma parse_failed: "dec a = Inl e \<Longrightarrow> parseStacksAddress dec a = Inr None"
  by (simp add: parseStacksAddress_def parseStacksAddress_try_def)

lemma parse_Some:
  "parseStacksAddress dec a = Inr (Some info) \<Longrightarrow>
   \<exists>n t. dec a = Inr (version info, hash160 info) \<and>
         classify_version (version info) = Some (n, t) \<and>
         info = \<lparr>address = a, network = n, type = t, version = version info,
                 hash160 = hash160 info, isValid = True\<rparr>"
  by (auto simp: parseStacksAddress_def parseStacksAddress_try_def
      split: sum.splits option.splits prod.splits)

lemma sample_decoder_accepts:
  "sample_decoder sample_address = Inr (22, ''a46ff88886c2ef9762d970b4d2c63678835bd39d'')"
  by (simp add: sample_decoder_def)

lemma sample_decoder_rejects:
  "sample_decoder ''SP123'' = Inl (Error ''Invalid c32 address'')"
  by (simp add: sample_decoder_def sample_address_def)

text \<open>
  Claim C4. The classification of a decoded version is (mainnet, single-sig) for 22,
  (mainnet, multi-sig) for 20, (testnet, single-sig) for 26, (testnet, multi-sig) for
  21 and null for every other value, among them 0, 19, 23, 27 and 255; and this
  classification is what the parser returns for an address that decodes to the version.
\<close>

theorem classify_version_table:
  "classify_version 22 = Some (mainnet, single_sig) \<and>
   classify_version 20 = Some (mainnet, multi_sig) \<and>
   classify_version 26 = Some (testnet, single_sig) \<and>
   classify_version 21 = Some (testnet, multi_sig) \<and>
   (v \<notin> {22, 20, 26, 21} \<longrightarrow> classify_version v = None) \<and>
   classify_version 0 = None \<and> classify_version 19 = None \<and>
   classify_version 23 = None \<and> classify_version 27 = None \<and>
   classify_version 255 = None \<and>
   (dec a = Inr (v, h) \<longrightarrow>
      parseStacksAddress dec a =
        Inr (if v = 22 then Some \<lparr>address = a, network = mainnet, type = single_sig,
                                   version = v, hash160 = h, isValid = True\<rparr>
             else if v = 20 then Some \<lparr>address = a, network = mainnet, type = multi_sig,
                                   version = v, hash160 = h, isValid = True\<rparr>
             else if v = 26 then Some \<lparr>address = a, network = testnet, type = single_sig,
                                   version = v, hash160 = h, isValid = True\<rparr>
             else if v = 21 then Some \<lparr>address = a, network = testnet, type = multi_sig,
                                   version = v, hash160 = h, isValid = True\<rparr>
             else None))"
  by (simp add: classify_version_cases parse_decoded)

theorem classify_version_table_witness:
  "(23::int) \<notin> {22, 20, 26, 21} \<and> classify_version 23 = None \<and>
   sample_decoder sample_address = Inr (22, ''a46ff88886c2ef9762d970b4d2c63678835bd39d'') \<and>
   parseStacksAddress sample_decoder sample_address =
     Inr (Some \<lparr>address = sample_address, network = mainnet, type = single_sig, version = 22,
                hash160 = ''a46ff88886c2ef9762d970b4d2c63678835bd39d'', isValid = True\<rparr>)"
  using classify_version_table [of 23]
    classify_version_table [of 22 sample_decoder sample_address
      "''a46ff88886c2ef9762d970b4d2c63678835bd39d''"]
    sample_decoder_accepts
  by simp

subsection \<open>What a successful parse returns\<close>

text \<open>
  Claim C10. Whenever the parser returns a record for an input string, the record's
  isValid field is true, its address field is the input string, its version is one of
  20, 21, 22 and 26, and its network and type are the table's entry for that version.
  The version and the hash are those the decoder returned.
\<close>

theorem parseStacksAddress_record:
  assumes "parseStacksAddress dec a = Inr (Some info)"
  shows "isValid info = True \<and> address info = a \<and> version info \<in> {20, 21, 22, 26} \<and>
         (version info = 22 \<longrightarrow> network info = mainnet \<and> type info = single_sig) \<and>
         (version info = 20 \<longrightarrow> network info = mainnet \<and> type info = multi_sig) \<and>
         (version info = 26 \<longrightarrow> network info = testnet \<and> type info = single_sig) \<and>
         (version info = 21 \<longrightarrow> network info = testnet \<and> type info = multi_sig) \<and>
         dec a = Inr (version info, hash160 info)"
proof -
  from parse_Some [OF assms] obtain n t where
    d: "dec a = Inr (version info, hash160 info)" and
    c: "classify_version (version info) = Some (n, t)" and
    i: "info = \<lparr>address = a, network = n, type = t, version = version info,
                 hash160 = hash160 info, isValid = True\<rparr>"
    by blast
  have f: "isValid info = True" "address info = a" "network info = n" "type info = t"
    by (subst i, simp)+
  from classify_version_Some [OF c] f d show ?thesis by auto
qed

theorem parseStacksAddress_record_witness:
  "parseStacksAddress sample_decoder sample_address =
     Inr (Some \<lparr>address = sample_address, network = mainnet, type = single_sig, version = 22,
                hash160 = ''a46ff88886c2ef9762d970b4d2c63678835bd39d'', isValid = True\<rparr>) \<and>
   isValid \<lparr>address = sample_address, network = mainnet, type = single_sig, version = 22,
            hash160 = ''a46ff88886c2ef9762d970b4d2c63678835bd39d'', isValid = True\<rparr> = True \<and>
   (22::int) \<in> {20, 21, 22, 26}"
proof -
  have p: "parseStacksAddress sample_decoder sample_address =
     Inr (Some \<lparr>address = sample_address, network = mainnet, type = single_sig, version = 22,
                hash160 = ''a46ff88886c2ef9762d970b4d2c63678835bd39d'', isValid = True\<rparr>)"
    using parse_decoded [of sample_decoder sample_address, OF sample_decoder_accepts]
    by (simp add: classify_version_cases)
  from parseStacksAddress_record [OF p] p show ?thesis by simp
qed

subsection \<open>Validation and parsing never throw\<close>

lemma startsWith_two: "startsWith s [c, d] = (take 2 s = [c, d])"
  by (simp add: startsWith_def numeral_2_eq_2)

lemma startsWith_append: "startsWith s p = (\<exists>r. s = p @ r)"
  unfolding startsWith_def
proof
  assume "take (length p) s = p"
  then have "s = p @ drop (length p) s" by (metis append_take_drop_id)
  then show "\<exists>r. s = p @ r" ..
next
  assume "\<exists>r. s = p @ r"
  then show "take (length p) s = p" by auto
qed

lemma valid_total: "\<exists>b. isValidStacksAddress dec a = Inr b"
  by (cases "isValidStacksAddress_try dec a") (auto simp: isValidStacksAddress_def)

lemma parse_total: "\<exists>r. parseStacksAddress dec a = Inr r"
  by (cases "parseStacksAddress_try dec a") (auto simp: parseStacksAddress_def)

lemma valid_cases:
  "isValidStacksAddress dec a = Inr True \<or> isValidStacksAddress dec a = Inr False"
  using valid_total [of dec a] by auto

lemma valid_True_iff:
  "(isValidStacksAddress dec (JString s) = Inr True) =
     (take 2 s \<in> {''SP'', ''ST'', ''SM'', ''SN''} \<and> (\<exists>v h. dec s = Inr (v, h)))"
  by (cases "dec s")
     (auto simp: isValidStacksAddress_def isValidStacksAddress_try_def startsWith_two)

lemma valid_not_string: "isValidStacksAddress dec JNotString = Inr False"
  by (simp add: isValidStacksAddress_def isValidStacksAddress_try_def)

lemma valid_empty: "isValidStacksAddress dec (JString []) = Inr False"
  by (simp add: isValidStacksAddress_def isValidStacksAddress_try_def)

lemma valid_try_throws_iff:
  "(\<exists>e. isValidStacksAddress_try dec (JString s) = Inl e) =
     (take 2 s \<in> {''SP'', ''ST'', ''SM'', ''SN''} \<and> (\<exists>e. dec s = Inl e))"
  by (cases "dec s") (auto simp: isValidStacksAddress_try_def startsWith_two)

text \<open>
  Claim C6. Validation returns false, and throws nothing, for a value that is not a
  string, for the empty string and for a string that does not begin with SP, ST, SM or
  SN; it returns true only if the string has such a prefix and the decoder returned
  without an exception; and neither validation nor parsing ever ends in an exception:
  when the decoder throws, validation returns false and parsing returns null.
\<close>

theorem validate_parse_never_throw:
  "(\<exists>b. isValidStacksAddress dec x = Inr b) \<and>
   (\<exists>r. parseStacksAddress dec s = Inr r) \<and>
   isValidStacksAddress dec JNotString = Inr False \<and>
   isValidStacksAddress dec (JString []) = Inr False \<and>
   (take 2 s \<notin> {''SP'', ''ST'', ''SM'', ''SN''} \<longrightarrow>
      isValidStacksAddress dec (JString s) = Inr False) \<and>
   (isValidStacksAddress dec (JString s) = Inr True \<longrightarrow>
      take 2 s \<in> {''SP'', ''ST'', ''SM'', ''SN''} \<and> (\<exists>v h. dec s = Inr (v, h))) \<and>
   (dec s = Inl e \<longrightarrow>
      isValidStacksAddress dec (JString s) = Inr False \<and> parseStacksAddress dec s = Inr None)"
proof -
  have no_prefix: "isValidStacksAddress dec (JString s) \<noteq> Inr True"
    if "take 2 s \<notin> {''SP'', ''ST'', ''SM'', ''SN''}"
    using that by (simp add: valid_True_iff)
  have thrown: "isValidStacksAddress dec (JString s) \<noteq> Inr True" if "dec s = Inl e"
    using that by (simp add: valid_True_iff)
  show ?thesis
    using valid_total [of dec x] parse_total [of dec s] valid_not_string [of dec]
      valid_empty [of dec] valid_cases [of dec "JString s"] no_prefix thrown
      valid_True_iff [of dec s] parse_failed [of dec s e]
    by blast
qed

theorem validate_parse_never_throw_witness:
  "isValidStacksAddress sample_decoder (JString sample_address) = Inr True \<and>
   take 2 sample_address \<in> {''SP'', ''ST'', ''SM'', ''SN''} \<and>
   take 2 ''invalid'' \<notin> {''SP'', ''ST'', ''SM'', ''SN''} \<and>
   isValidStacksAddress sample_decoder (JString ''invalid'') = Inr False \<and>
   sample_decoder ''SP123'' = Inl (Error ''Invalid c32 address'') \<and>
   isValidStacksAddress sample_decoder (JString ''SP123'') = Inr False \<and>
   parseStacksAddress sample_decoder ''SP123'' = Inr None"
proof -
  have v: "isValidStacksAddress sample_decoder (JString sample_address) = Inr True"
    by (simp add: valid_True_iff sample_decoder_accepts) (simp add: sample_address_def)
  have n: "take 2 ''invalid'' \<notin> {''SP'', ''ST'', ''SM'', ''SN''}" by simp
  from v n sample_decoder_rejects
    validate_parse_never_throw [of sample_decoder "JString sample_address" sample_address]
    validate_parse_never_throw [of sample_decoder "JString ''invalid''" "''invalid''"]
    validate_parse_never_throw [of sample_decoder "JString ''SP123''" "''SP123''"
      "Error ''Invalid c32 address''"]
  show ?thesis by simp
qed

subsection \<open>The network of a prefix\<close>

lemma startsWith_take: "length p \<le> n \<Longrightarrow> startsWith (take n s) p = startsWith s p"
  by (simp add: startsWith_def min_def)

text \<open>
  Claim C8. The network of an address is decided by its first two characters alone,
  case-sensitively, with no decoding: it is mainnet exactly when the string starts with
  SP or SM, testnet exactly when it starts with ST or SN, and null for every other
  string.
\<close>

theorem getNetworkFromAddress_prefix:
  "(getNetworkFromAddress a = Some mainnet) = (\<exists>r. a = ''SP'' @ r \<or> a = ''SM'' @ r) \<and>
   (getNetworkFromAddress a = Some testnet) = (\<exists>r. a = ''ST'' @ r \<or> a = ''SN'' @ r) \<and>
   (getNetworkFromAddress a = None) = (take 2 a \<notin> {''SP'', ''SM'', ''ST'', ''SN''}) \<and>
   getNetworkFromAddress (take 2 a) = getNetworkFromAddress a \<and>
   getNetworkFromAddress ''sp2j6zy48gv1ez5v2v5rb9mp66sw86pykknrv9ej7'' = None \<and>
   getNetworkFromAddress ''Sp2J6ZY48GV1EZ5V2V5RB9MP66SW86PYKKNRV9EJ7'' = None"
proof -
  have m: "(getNetworkFromAddress a = Some mainnet) = (\<exists>r. a = ''SP'' @ r \<or> a = ''SM'' @ r)"
    by (auto simp: getNetworkFromAddress_def isMainnetAddress_def isTestnetAddress_def
        startsWith_append)
  have t: "(getNetworkFromAddress a = Some testnet) = (\<exists>r. a = ''ST'' @ r \<or> a = ''SN'' @ r)"
    by (auto simp: getNetworkFromAddress_def isMainnetAddress_def isTestnetAddress_def
        startsWith_append)
  have n: "(getNetworkFromAddress a = None) = (take 2 a \<notin> {''SP'', ''SM'', ''ST'', ''SN''})"
    by (simp add: getNetworkFromAddress_def isMainnetAddress_def isTestnetAddress_def
        startsWith_two)
  have p: "getNetworkFromAddress (take 2 a) = getNetworkFromAddress a"
    by (simp add: getNetworkFromAddress_def isMainnetAddress_def isTestnetAddress_def
        startsWith_take)
  have l: "getNetworkFromAddress ''sp2j6zy48gv1ez5v2v5rb9mp66sw86pykknrv9ej7'' = None"
    "getNetworkFromAddress ''Sp2J6ZY48GV1EZ5V2V5RB9MP66SW86PYKKNRV9EJ7'' = None"
    by (simp_all add: getNetworkFromAddress_def isMainnetAddress_def isTestnetAddress_def
        startsWith_two)
  from m t n p l show ?thesis by (simp only: simp_thms)
qed

theorem getNetworkFromAddress_prefix_witness:
  "getNetworkFromAddress sample_address = Some mainnet \<and>
   getNetworkFromAddress ''ST2J6ZY48GV1EZ5V2V5RB9MP66SW86PYKKQYAC0RQ'' = Some testnet \<and>
   getNetworkFromAddress ''invalid'' = None"
proof -
  have "sample_address = ''SP'' @ ''2J6ZY48GV1EZ5V2V5RB9MP66SW86PYKKNRV9EJ7''"
    by (simp add: sample_address_def)
  then have "\<exists>r. sample_address = ''SP'' @ r \<or> sample_address = ''SM'' @ r"
    by (intro exI disjI1)
  then have m: "getNetworkFromAddress sample_address = Some mainnet"
    by (rule iffD2 [OF getNetworkFromAddress_prefix [of sample_address, THEN conjunct1]])
  have "''ST2J6ZY48GV1EZ5V2V5RB9MP66SW86PYKKQYAC0RQ'' =
      ''ST'' @ ''2J6ZY48GV1EZ5V2V5RB9MP66SW86PYKKQYAC0RQ''"
    by simp
  then have "\<exists>r. ''ST2J6ZY48GV1EZ5V2V5RB9MP66SW86PYKKQYAC0RQ'' = ''ST'' @ r \<or>
      ''ST2J6ZY48GV1EZ5V2V5RB9MP66SW86PYKKQYAC0RQ'' = ''SN'' @ r"
    by (intro exI disjI1)
  then have t: "getNetworkFromAddress ''ST2J6ZY48GV1EZ5V2V5RB9MP66SW86PYKKQYAC0RQ'' = Some testnet"
    by (rule iffD2 [OF getNetworkFromAddress_prefix
          [of "''ST2J6ZY48GV1EZ5V2V5RB9MP66SW86PYKKQYAC0RQ''", THEN conjunct2, THEN conjunct1]])
  have "take 2 ''invalid'' \<notin> {''SP'', ''SM'', ''ST'', ''SN''}" by simp
  then have n: "getNetworkFromAddress ''invalid'' = None"
    by (rule iffD2 [OF getNetworkFromAddress_prefix
          [of "''invalid''", THEN conjunct2, THEN conjunct2, THEN conjunct1]])
  from m t n show ?thesis by (intro conjI)
qed

subsection \<open>Shortening an address for display\<close>

lemma js_slice_prefix: "n \<le> length s \<Longrightarrow> js_slice s 0 (int n) = take n s"
  by (simp add: js_slice_def Let_def min_def)

lemma js_slice_suffix:
  assumes "0 < n" "n \<le> length s"
  shows "js_slice_from s (- int n) = drop (length s - n) s"
proof -
  have "nat (int (length s) - int n) = length s - n" using assms by linarith
  with assms show ?thesis
    by (simp add: js_slice_from_def js_slice_def Let_def max_def)
qed

lemma js_slice_from_zero: "js_slice_from s 0 = s"
  by (simp add: js_slice_from_def js_slice_def Let_def)

text \<open>
  With at least one character asked for at the end, the function is the Shorten of the
  specification.
\<close>

lemma shortenAddress_positive:
  assumes "0 < endChars"
  shows "shortenAddress a (int startChars) (int endChars) = shorten_spec a startChars endChars"
proof (cases "length a \<le> startChars + endChars + 3")
  case True
  then have "int (length a) \<le> int startChars + int endChars + 3" by linarith
  with True show ?thesis by (simp add: shortenAddress_def shorten_spec_def)
next
  case False
  then have n: "\<not> int (length a) \<le> int startChars + int endChars + 3" "a \<noteq> []"
    "startChars \<le> length a" "endChars \<le> length a" by auto
  show ?thesis
    using False n assms
    by (simp add: shortenAddress_def shorten_spec_def js_slice_prefix js_slice_suffix)
qed

text \<open>
  With no character asked for at the end, \<open>slice(-0)\<close> is \<open>slice(0)\<close>: a long
  address comes back whole after the dots.
\<close>

lemma shortenAddress_zero_end:
  assumes "startChars + 3 < length a"
  shows "shortenAddress a (int startChars) 0 = take startChars a @ ''...'' @ a"
proof -
  from assms have "\<not> int (length a) \<le> int startChars + 0 + 3" "a \<noteq> []"
    "startChars \<le> length a" by auto
  then show ?thesis by (simp add: shortenAddress_def js_slice_prefix js_slice_from_zero)
qed

lemma shortenAddress_examples:
  "shortenAddress_default sample_address = ''SP2J6...9EJ7'' \<and>
   shortenAddress_default ''SP123'' = ''SP123'' \<and>
   shortenAddress sample_address 8 6 = ''SP2J6ZY4...RV9EJ7''"
  by (simp add: shortenAddress_default_def shortenAddress_def js_slice_def js_slice_from_def
      sample_address_def)

text \<open>
  Claim C7. Shorten returns its input unchanged when the input is no longer than
  \<open>startChars + endChars + 3\<close>, and otherwise the first \<open>startChars\<close> characters,
  three dots and the last \<open>endChars\<close> characters. The code departs from this at
  \<open>endChars = 0\<close>: for the 41-character sample address with \<open>startChars = 5\<close> the
  claim gives \<open>SP2J6...\<close>, the code gives the five characters, the dots and then the
  whole address again.
\<close>

theorem shortenAddress_end_zero:
  "shortenAddress sample_address 5 0 = ''SP2J6...SP2J6ZY48GV1EZ5V2V5RB9MP66SW86PYKKNRV9EJ7'' \<and>
   shorten_spec sample_address 5 0 = ''SP2J6...'' \<and>
   shortenAddress sample_address 5 0 \<noteq> shorten_spec sample_address 5 0"
  by (simp add: shortenAddress_def shorten_spec_def js_slice_def js_slice_from_def
      sample_address_def)

subsection \<open>Comparing addresses\<close>

lemma of_char_bound: "(of_char c :: nat) < 256"
proof -
  have "(of_char c :: nat) mod 256 = of_char c" by simp
  then show ?thesis by (metis mod_less_divisor zero_less_numeral)
qed

lemma upper_unit_cases:
  "upper_unit m =
     (if lower_code m then m - 32 else if m = 181 then 924 else if m = 255 then 376 else m)"
  by (simp add: upper_unit_def lower_code_def)

lemma lower_code_capital:
  "lower_code m \<Longrightarrow>
     \<not> lower_code (m - 32) \<and> m - 32 \<noteq> 181 \<and> m - 32 \<noteq> 255 \<and> 32 \<le> m"
  unfolding lower_code_def by linarith

lemma upper_unit_eq_imp:
  assumes "m < 256" "n < 256" "upper_unit m = upper_unit n" "m \<noteq> n"
  shows "(lower_code m \<and> n + 32 = m) \<or> (lower_code n \<and> m + 32 = n)"
proof (cases "lower_code m")
  case True
  note lm = this
  show ?thesis
  proof (cases "lower_code n")
    case True
    with lm assms lower_code_capital [of m] lower_code_capital [of n] show ?thesis
      by (simp add: upper_unit_cases) linarith
  next
    case False
    with lm assms lower_code_capital [of m] show ?thesis
      by (auto simp: upper_unit_cases split: if_splits)
  qed
next
  case False
  note lm = this
  show ?thesis
  proof (cases "lower_code n")
    case True
    with lm assms lower_code_capital [of n] show ?thesis
      by (auto simp: upper_unit_cases split: if_splits)
  next
    case False
    with lm assms show ?thesis
      by (simp add: upper_unit_cases split: if_splits)
  qed
qed

lemma upper_unit_eq_conv: "lower_code m \<Longrightarrow> n + 32 = m \<Longrightarrow> upper_unit m = upper_unit n"
  using lower_code_capital [of m] by (auto simp: upper_unit_cases)

lemma upper_unit_eq_iff:
  assumes "m < 256" "n < 256"
  shows "(upper_unit m = upper_unit n) =
     (m = n \<or> (lower_code m \<and> n + 32 = m) \<or> (lower_code n \<and> m + 32 = n))"
  using upper_unit_eq_imp [OF assms] upper_unit_eq_conv [of m n] upper_unit_eq_conv [of n m]
  by metis

lemma sharp_s_code: "(CHR 0xDF \<noteq> c) = ((of_char c :: nat) \<noteq> 223)"
proof -
  have "(CHR 0xDF = c) = ((of_char (CHR 0xDF) :: nat) = of_char c)"
    by (simp only: of_char_eq_iff)
  then show ?thesis by auto
qed

lemma upper_units_eq_iff:
  assumes "CHR 0xDF \<noteq> c" "CHR 0xDF \<noteq> d"
  shows "(upper_units c = upper_units d) = same_letter c d"
proof -
  define m n where mn: "m = (of_char c :: nat)" "n = (of_char d :: nat)"
  have cd: "(c = d) = (m = n)" by (simp add: mn)
  have b: "m < 256" "n < 256" by (simp_all add: mn of_char_bound)
  from assms have "m \<noteq> 223" "n \<noteq> 223" by (simp_all add: sharp_s_code mn)
  then have "(upper_units c = upper_units d) = (upper_unit m = upper_unit n)"
    by (simp add: upper_units_def mn)
  also have "\<dots> = (m = n \<or> (lower_code m \<and> n + 32 = m) \<or> (lower_code n \<and> m + 32 = n))"
    by (rule upper_unit_eq_iff [OF b])
  also have "\<dots> = same_letter c d"
    by (simp only: same_letter_def is_lower_letter_def cd mn)
  finally show ?thesis .
qed

lemma length_upper_units: "CHR 0xDF \<noteq> c \<Longrightarrow> length (upper_units c) = Suc 0"
  by (simp add: sharp_s_code upper_units_def)

text \<open>
  Without the sharp s every character has a one-letter upper-case form, and equal
  upper-case forms mean equality ignoring letter case.
\<close>

lemma toUpperCase_eq_iff:
  "CHR 0xDF \<notin> set a \<Longrightarrow> CHR 0xDF \<notin> set b \<Longrightarrow>
     (toUpperCase a = toUpperCase b) = equal_ignoring_case a b"
  unfolding toUpperCase_def equal_ignoring_case_def
proof (induction a arbitrary: b)
  case Nil
  show ?case
  proof (cases b)
    case Nil
    then show ?thesis by simp
  next
    case (Cons y ys)
    with Nil.prems have "length (upper_units y) = 1" by (simp add: length_upper_units)
    then have "upper_units y \<noteq> []" by auto
    with Cons show ?thesis by simp
  qed
next
  case (Cons x xs)
  from Cons.prems have lx: "length (upper_units x) = 1" by (simp add: length_upper_units)
  show ?case
  proof (cases b)
    case Nil
    from lx have "upper_units x \<noteq> []" by auto
    with Nil show ?thesis by simp
  next
    case (Cons y ys)
    with Cons.prems have ly: "length (upper_units y) = 1" and ys: "CHR 0xDF \<notin> set ys"
      by (simp_all add: length_upper_units)
    from Cons.prems have xs: "CHR 0xDF \<notin> set xs" by simp
    have "(upper_units x @ concat (map upper_units xs) =
           upper_units y @ concat (map upper_units ys)) =
          (upper_units x = upper_units y \<and>
           concat (map upper_units xs) = concat (map upper_units ys))"
      using lx ly by (simp add: append_eq_append_conv)
    moreover from Cons.prems Cons have "CHR 0xDF \<noteq> x" "CHR 0xDF \<noteq> y" by auto
    ultimately show ?thesis
      using Cons Cons.IH [OF xs ys] by (simp add: upper_units_eq_iff)
  qed
qed

lemma ascii_no_sharp_s: "is_ascii a \<Longrightarrow> CHR 0xDF \<notin> set a"
  by (auto simp: is_ascii_def list_all_iff)

lemma sample_address_ascii:
  "is_ascii sample_address \<and> is_ascii ''sp2j6zy48gv1ez5v2v5rb9mp66sw86pykknrv9ej7''"
  by (simp add: is_ascii_def sample_address_def)

lemma sample_address_lower:
  "equal_ignoring_case sample_address ''sp2j6zy48gv1ez5v2v5rb9mp66sw86pykknrv9ej7''"
  by (simp add: equal_ignoring_case_def sample_address_def same_letter_def is_lower_letter_def
      lower_code_def)

text \<open>
  Claim C9, as stated for all strings, fails where upper-casing changes more than the
  case of a letter: the sharp s and the two letters ss are both lower case and of
  different lengths, so they are not equal ignoring letter case, yet both have the
  upper-case form SS and the comparison returns true.
\<close>

theorem addressesEqual_sharp_s:
  "[CHR 0xDF] \<noteq> [] \<and> ''ss'' \<noteq> [] \<and>
   addressesEqual [CHR 0xDF] ''ss'' = True \<and>
   equal_ignoring_case [CHR 0xDF] ''ss'' = False"
  by (simp add: addressesEqual_def toUpperCase_def upper_units_def upper_unit_def
      equal_ignoring_case_def)

text \<open>
  Claim C9, amended. For all strings a and b the comparison returns false when either
  is empty; for non-empty ASCII strings a and b it returns true exactly when a and b
  are equal ignoring letter case.
\<close>

theorem addressesEqual_ignoring_case:
  "(a = [] \<or> b = [] \<longrightarrow> addressesEqual a b = False) \<and>
   (is_ascii a \<and> is_ascii b \<and> a \<noteq> [] \<and> b \<noteq> [] \<longrightarrow>
      addressesEqual a b = equal_ignoring_case a b)"
  by (simp add: addressesEqual_def toUpperCase_eq_iff ascii_no_sharp_s)

theorem addressesEqual_ignoring_case_witness:
  "is_ascii sample_address \<and> is_ascii ''sp2j6zy48gv1ez5v2v5rb9mp66sw86pykknrv9ej7'' \<and>
   sample_address \<noteq> [] \<and> ''sp2j6zy48gv1ez5v2v5rb9mp66sw86pykknrv9ej7'' \<noteq> [] \<and>
   addressesEqual sample_address ''sp2j6zy48gv1ez5v2v5rb9mp66sw86pykknrv9ej7'' = True \<and>
   addressesEqual [] ''SP123'' = False"
proof -
  have ne: "sample_address \<noteq> []" by (simp add: sample_address_def)
  from addressesEqual_ignoring_case [of sample_address
      "''sp2j6zy48gv1ez5v2v5rb9mp66sw86pykknrv9ej7''"]
    addressesEqual_ignoring_case [of "[]" "''SP123''"]
    sample_address_ascii sample_address_lower ne
  show ?thesis by simp
qed

end
